theory Spec2Isabelle
  imports Complex_Main "HOL-Library.Multiset" "HOL-Library.FSet" "HOL-Library.AList"
begin

section \<open>Secret Hitler simulator: the game engine of game.py\<close>

text \<open>
  The engine is the class \<open>Game\<close> of \<open>secret_hitler_simulator/game.py\<close>. Its methods
  mutate the game object; here every method takes the game (a record of the object's
  attributes) and returns the updated game. An exception of the source is the left
  injection of a sum, so every raise is a branch of the model.

  Conventions used throughout:
  \<^item> a player object is an opaque handle compared by identity: a natural number;
  \<^item> the two tallies and the anarchy counter start at 0 and are only ever incremented,
    so they are natural numbers; \<open>(11 - n) * [x]\<close> of Python is the empty list when
    \<open>n > 11\<close>, which is what truncating subtraction and \<open>replicate\<close> give;
  \<^item> a dict is an association list in insertion order, updated with \<open>AList.update\<close>
    (replace in place, or append), as Python's dict does;
  \<^item> the module-level generator of \<open>random\<close> is the attribute \<open>random_state\<close> of
    the model's game record: it is process-wide in the source, and the only state outside
    the game object that the engine reads or writes.
\<close>

subsection \<open>constants.py\<close>

datatype allegiance = Allegiance_LIBERAL | Allegiance_FASCIST

datatype policy = Policy_LIBERAL | Policy_FASCIST

fun PARTY_MEMBERSHIP_BY_PLAYERS :: "nat \<Rightarrow> allegiance \<Rightarrow> nat option" where
  "PARTY_MEMBERSHIP_BY_PLAYERS n a =
     (if n = 5 then Some (case a of Allegiance_LIBERAL \<Rightarrow> 3 | Allegiance_FASCIST \<Rightarrow> 2)
      else if n = 6 then Some (case a of Allegiance_LIBERAL \<Rightarrow> 4 | Allegiance_FASCIST \<Rightarrow> 2)
      else if n = 7 then Some (case a of Allegiance_LIBERAL \<Rightarrow> 4 | Allegiance_FASCIST \<Rightarrow> 3)
      else if n = 8 then Some (case a of Allegiance_LIBERAL \<Rightarrow> 5 | Allegiance_FASCIST \<Rightarrow> 3)
      else if n = 9 then Some (case a of Allegiance_LIBERAL \<Rightarrow> 5 | Allegiance_FASCIST \<Rightarrow> 4)
      else if n = 10 then Some (case a of Allegiance_LIBERAL \<Rightarrow> 6 | Allegiance_FASCIST \<Rightarrow> 4)
      else None)"

subsection \<open>Python values and exceptions\<close>

text \<open>
  What an agent method hands back is not checked by Python's type hints, so a reply is a
  Python value of any type. The values of the model are \<open>None\<close>, the booleans, the
  integers, the members of the two enums, tuples, lists and strings. A reply of any other
  type (a float, a dict, an object of a class of the caller's) has no counterpart here:
  \<open>sum\<close> adds a float vote in floating point and \<open>1.0 in [0, 1, 2, 3]\<close> holds, and
  neither is expressed below. Every statement about agents in this theory is a statement
  about agents whose replies are values of this type.
\<close>

type_synonym player = nat

datatype pyval =
    PyNone
  | PyBool bool
  | PyInt int
  | PyPolicy policy
  | PyAllegiance allegiance
  | PyTuple "pyval list"
  | PyList "pyval list"
  | PyStr string

datatype exn =
    PlayerException player
  | ValueError
  | IndexError
  | TypeError
  | KeyError
  | UnboundLocalError
  | AgentError

datatype reply = Return pyval | Raise exn

datatype player_method =
    Select_chancellor
  | Intent_to_vote_on_government
  | Vote_on_government
  | Select_policy_to_discard_as_president
  | Select_policy_to_discard_as_chancellor
  | Veto_legislation
  | Claimed_policy_to_discard_as_president
  | Claimed_policy_to_discard_as_chancellor
  | Select_player_to_investigate
  | Claimed_player_investigation_result
  | Select_special_election_president
  | Select_player_to_execute

text \<open>\<open>isinstance(v, int)\<close>: bool is a subclass of int, and \<open>True == 1\<close>.\<close>

fun int_of_pyval :: "pyval \<Rightarrow> int option" where
  "int_of_pyval (PyInt i) = Some i"
| "int_of_pyval (PyBool b) = Some (if b then 1 else 0)"
| "int_of_pyval _ = None"

text \<open>\<open>xs[i]\<close> on a tuple: a negative index counts from the end.\<close>

definition getitem :: "'a list \<Rightarrow> pyval \<Rightarrow> exn + 'a" where
  "getitem xs v =
     (case int_of_pyval v of
        None \<Rightarrow> Inl TypeError
      | Some i \<Rightarrow>
          if 0 \<le> i \<and> i < int (length xs) then Inr (xs ! nat i)
          else if - int (length xs) \<le> i \<and> i < 0 then Inr (xs ! nat (int (length xs) + i))
          else Inl IndexError)"

text \<open>\<open>xs.index(x)\<close>: the first position of \<open>x\<close>; ValueError when it is absent.\<close>

fun index :: "'a list \<Rightarrow> 'a \<Rightarrow> nat" where
  "index [] x = 0"
| "index (y # ys) x = (if y = x then 0 else Suc (index ys x))"

text \<open>\<open>sum(vs)\<close>, starting from 0: a value that is no number raises TypeError.\<close>

fun py_sum :: "pyval list \<Rightarrow> exn + int" where
  "py_sum [] = Inr 0"
| "py_sum (v # vs) =
     (case int_of_pyval v of
        None \<Rightarrow> Inl TypeError
      | Some i \<Rightarrow> (case py_sum vs of Inl e \<Rightarrow> Inl e | Inr t \<Rightarrow> Inr (i + t)))"

text \<open>
  \<open>(a, b) = v\<close>: unpacking into two targets iterates over \<open>v\<close>. It succeeds for a
  tuple, a list or a string of length 2 (a string yields its two characters as strings)
  and raises for every other value of the model.
\<close>

fun unpack2 :: "pyval \<Rightarrow> (pyval \<times> pyval) option" where
  "unpack2 (PyTuple [a, b]) = Some (a, b)"
| "unpack2 (PyList [a, b]) = Some (a, b)"
| "unpack2 (PyStr [a, b]) = Some (PyStr [a], PyStr [b])"
| "unpack2 _ = None"

subsection \<open>RoundRecord\<close>

text \<open>
  The dataclass \<open>RoundRecord\<close>. Its attributes \<open>fascists\<close>, \<open>hitler\<close> and
  \<open>special_election_next_president\<close> share their names with attributes of \<open>Game\<close>
  and carry the prefix \<open>record_\<close> here. The link \<open>_previous_record\<close> of the record at
  position \<open>i\<close> of \<open>round_history\<close> is the record at position \<open>i - 1\<close>: the history is a
  list and the link is the list's order. Attributes that store what an agent returned
  before (or without) validation hold a \<open>pyval\<close>.
\<close>

record round_record =
  number_of_players :: nat
  record_fascists :: "nat fset"
  record_hitler :: nat
  president :: "nat option"
  declared_election_intent :: "(nat \<times> (nat \<times> pyval) list) list option"
  chancellor :: "pyval option"
  election_results :: "(nat \<times> pyval) list option"
  successful_election :: "bool option"
  num_fascist_policies_for_president :: "nat option"
  policy_discarded_by_president :: "policy option"
  num_fascist_policies_for_chancellor :: "nat option"
  policy_discarded_by_chancellor :: "policy option"
  chancellor_veto :: "bool option"
  president_veto :: "bool option"
  president_claimed_number_of_fascist_cards_drawn :: "pyval option"
  president_claimed_discarded_policy :: "policy option"
  chancellor_claimed_discarded_policy :: "policy option"
  anarchy_occured :: "bool option"
  selected_policy :: "policy option"
  investigated_player :: "pyval option"
  investigated_player_identity :: "allegiance option"
  claimed_investigated_player_allegiance :: "pyval option"
  record_special_election_next_president :: "pyval option"
  executed_player :: "pyval option"
  anarchy_result :: "policy option"
  your_player_id :: "nat option"

definition RoundRecord :: "nat \<Rightarrow> nat fset \<Rightarrow> nat \<Rightarrow> round_record" where
  "RoundRecord n fs h =
     \<lparr> number_of_players = n, record_fascists = fs, record_hitler = h,
       president = None, declared_election_intent = None, chancellor = None,
       election_results = None, successful_election = None,
       num_fascist_policies_for_president = None, policy_discarded_by_president = None,
       num_fascist_policies_for_chancellor = None, policy_discarded_by_chancellor = None,
       chancellor_veto = None, president_veto = None,
       president_claimed_number_of_fascist_cards_drawn = None,
       president_claimed_discarded_policy = None,
       chancellor_claimed_discarded_policy = None, anarchy_occured = None,
       selected_policy = None, investigated_player = None,
       investigated_player_identity = None,
       claimed_investigated_player_allegiance = None,
       record_special_election_next_president = None, executed_player = None,
       anarchy_result = None, your_player_id = None \<rparr>"

subsection \<open>Game\<close>

record 'g game =
  liberals :: "player fset"
  fascists :: "player fset"
  hitler :: player
  policy_deck :: "policy list"
  presidential_order :: "player list"
  round_history :: "round_record list"
  players :: "player list"
  executed_players :: "player list"
  special_election_next_president :: "player option"
  previous_government :: "player fset"
  anarchy_counter :: nat
  liberal_policies_passed :: nat
  fascist_policies_passed :: nat
  shot_hitler :: bool
  elected_hitler :: bool
  random_number_generator :: 'g
  random_state :: 'g

text \<open>
  The agents: \<open>ag p m view g\<close> is what method \<open>m\<close> of player \<open>p\<close> does when called with
  the perceived state \<open>view\<close> while the module-level generator is in state \<open>g\<close>: its
  reply, and the generator's state afterwards (an agent may draw random numbers).
  \<open>shuffle g xs\<close> is \<open>random.shuffle\<close> run from generator state \<open>g\<close>: the shuffled list
  and the generator's state afterwards.
\<close>

type_synonym 'g agents = "player \<Rightarrow> player_method \<Rightarrow> round_record list \<Rightarrow> 'g \<Rightarrow> reply \<times> 'g"

type_synonym 'g shuffle = "'g \<Rightarrow> policy list \<Rightarrow> policy list \<times> 'g"

text \<open>
  \<open>Game.__init__\<close>. The last argument is the state of the module-level generator when
  the game is built, which \<open>random.getstate()\<close> saves.
\<close>

definition Game_init ::
  "player fset \<Rightarrow> player fset \<Rightarrow> player \<Rightarrow> policy list \<Rightarrow> player list \<Rightarrow> 'g \<Rightarrow> exn + 'g game" where
  "Game_init libs fascs hit deck order g =
     (let number_players = length order in
      if list_ex (\<lambda>p. p |\<notin>| libs \<and> p |\<notin>| fascs \<and> p \<noteq> hit) order then Inl ValueError
      else if \<not> libs |\<subseteq>| fset_of_list order then Inl ValueError
      else if \<not> fascs |\<subseteq>| fset_of_list order then Inl ValueError
      else if hit \<notin> set order then Inl ValueError
      else
        (case PARTY_MEMBERSHIP_BY_PLAYERS number_players Allegiance_LIBERAL of
           None \<Rightarrow> Inl KeyError
         | Some nl \<Rightarrow>
             if fcard libs \<noteq> nl then Inl ValueError
             else
               (case PARTY_MEMBERSHIP_BY_PLAYERS number_players Allegiance_FASCIST of
                  None \<Rightarrow> Inl KeyError
                | Some nf \<Rightarrow>
                    if fcard fascs \<noteq> nf then Inl ValueError
                    else Inr
                      \<lparr> liberals = libs, fascists = fascs, hitler = hit,
                        policy_deck = deck, presidential_order = order,
                        round_history = [], players = order, executed_players = [],
                        special_election_next_president = None,
                        previous_government = {||}, anarchy_counter = 0,
                        liberal_policies_passed = 0, fascist_policies_passed = 0,
                        shot_hitler = False, elected_hitler = False,
                        random_number_generator = g, random_state = g \<rparr>)))"

definition determine_if_winner :: "'g game \<Rightarrow> allegiance option \<times> string option" where
  "determine_if_winner s =
     (if liberal_policies_passed s = 5 then (Some Allegiance_LIBERAL, Some ''Passed 5 Liberal Policies'')
      else if shot_hitler s then (Some Allegiance_LIBERAL, Some ''Shot Hitler'')
      else if fascist_policies_passed s = 6 then (Some Allegiance_FASCIST, Some ''Passed 6 Fascist Policies'')
      else if elected_hitler s then (Some Allegiance_FASCIST, Some ''Elected Hitler'')
      else (None, None))"

text \<open>
  \<open>Game.update_policy_deck\<close>: \<open>random.setstate\<close> puts the module-level generator into
  the saved state, the shuffle runs from there, and \<open>random.getstate()\<close> saves the state
  the shuffle left; the module-level generator stays in that state.
\<close>

definition update_policy_deck :: "'g shuffle \<Rightarrow> 'g game \<Rightarrow> 'g game" where
  "update_policy_deck shuffle s =
     (if length (policy_deck s) < 3 then
        (let policy_deck_list =
               replicate (11 - fascist_policies_passed s) Policy_FASCIST
               @ replicate (6 - liberal_policies_passed s) Policy_LIBERAL;
             (shuffled, g') = shuffle (random_number_generator s) policy_deck_list
         in s\<lparr> policy_deck := shuffled, random_number_generator := g', random_state := g' \<rparr>)
      else s)"

subsection \<open>Calling an agent\<close>

text \<open>
  \<open>get_player_percieved_game_state\<close>, as a value: every record of the history with
  \<open>your_player_id\<close> set to the player's position in \<open>players\<close>. The source
  builds it from \<open>deepcopy\<close> of each record; a value has no identity, so that the
  copies share no object with the history is not expressed by this definition.
\<close>

definition get_player_percieved_game_state :: "'g game \<Rightarrow> player \<Rightarrow> round_record list" where
  "get_player_percieved_game_state s p =
     map (\<lambda>r. r\<lparr> your_player_id := Some (index (players s) p) \<rparr>) (round_history s)"

text \<open>
  One call of an agent method with an already built perceived state: the reply, and the
  game with the module-level generator in the state the agent left it in.
\<close>

definition ask ::
  "'g agents \<Rightarrow> player \<Rightarrow> player_method \<Rightarrow> round_record list \<Rightarrow> 'g game \<Rightarrow> reply \<times> 'g game" where
  "ask ag p m view s =
     (case ag p m view (random_state s) of (r, g') \<Rightarrow> (r, s\<lparr> random_state := g' \<rparr>))"

text \<open>
  \<open>self.round_history[-1].attr = value\<close>. On an empty history the subscript raises
  IndexError: every method below checks for that before its first such assignment, so
  \<open>set_last\<close> itself is only ever applied to a history with a last record.
\<close>

definition set_last :: "(round_record \<Rightarrow> round_record) \<Rightarrow> 'g game \<Rightarrow> 'g game" where
  "set_last f s =
     (if round_history s = [] then s
      else s\<lparr> round_history := butlast (round_history s) @ [f (last (round_history s))] \<rparr>)"

subsection \<open>The phases of a round\<close>

text \<open>
  \<open>update_round_history\<close>. \<open>self.players.index(player)\<close> raises ValueError for a player
  that is not seated.
\<close>

definition update_round_history :: "'g game \<Rightarrow> exn + 'g game" where
  "update_round_history s =
     (if \<not> fascists s |\<subseteq>| fset_of_list (players s) \<or> hitler s \<notin> set (players s)
      then Inl ValueError
      else Inr (s\<lparr> round_history := round_history s @
             [RoundRecord (length (players s))
                (index (players s) |`| fascists s)
                (index (players s) (hitler s))] \<rparr>))"

definition determine_next_president :: "'g game \<Rightarrow> exn + (player \<times> nat \<times> 'g game)" where
  "determine_next_president s =
     (case (case special_election_next_president s of
              Some p \<Rightarrow> Inr (p, s\<lparr> special_election_next_president := None \<rparr>)
            | None \<Rightarrow>
                (case presidential_order s of
                   [] \<Rightarrow> Inl IndexError
                 | p # rest \<Rightarrow> Inr (p, s\<lparr> presidential_order := rest @ [p] \<rparr>))) of
        Inl e \<Rightarrow> Inl e
      | Inr (pres, s1) \<Rightarrow>
          if pres \<notin> set (players s1) then Inl ValueError
          else if round_history s1 = [] then Inl IndexError
          else Inr (pres, index (players s1) pres,
                 set_last (\<lambda>r. r\<lparr> president := Some (index (players s1) pres) \<rparr>) s1))"

text \<open>
  \<open>solicit_intent_to_vote\<close>. \<open>d.setdefault(c, {})[p] = v\<close> is \<open>setdefault_set\<close>; the
  inner loop over the voters is \<open>solicit_voters\<close>, the outer loop over the proposed
  chancellors \<open>solicit_candidates\<close>. The call of the agent is not inside a
  \<open>try\<close>: what the agent raises leaves the method as it is.
\<close>

type_synonym intent = "(nat \<times> (nat \<times> pyval) list) list"

definition setdefault_set :: "nat \<Rightarrow> nat \<Rightarrow> pyval \<Rightarrow> intent \<Rightarrow> intent" where
  "setdefault_set c p v d =
     AList.update c
       (AList.update p v (case map_of d c of None \<Rightarrow> [] | Some inner \<Rightarrow> inner)) d"

fun solicit_voters ::
  "'g agents \<Rightarrow> nat \<Rightarrow> player list \<Rightarrow> intent \<Rightarrow> 'g game \<Rightarrow> exn + (intent \<times> 'g game)" where
  "solicit_voters ag cid [] d s = Inr (d, s)"
| "solicit_voters ag cid (p # ps) d s =
     (if p \<in> set (executed_players s) then solicit_voters ag cid ps d s
      else
        (case ask ag p Intent_to_vote_on_government (get_player_percieved_game_state s p) s of
           (Raise e, s') \<Rightarrow> Inl e
         | (Return v, s') \<Rightarrow>
             solicit_voters ag cid ps (setdefault_set cid (index (players s) p) v d) s'))"

fun solicit_candidates ::
  "'g agents \<Rightarrow> player \<Rightarrow> player list \<Rightarrow> intent \<Rightarrow> 'g game \<Rightarrow> exn + (intent \<times> 'g game)" where
  "solicit_candidates ag pres [] d s = Inr (d, s)"
| "solicit_candidates ag pres (c # cs) d s =
     (if c \<in> set (executed_players s) \<or> c = pres
         \<or> (c |\<in>| previous_government s \<and> 5 < length (presidential_order s))
      then solicit_candidates ag pres cs d s
      else
        (case solicit_voters ag (index (players s) c) (players s) d s of
           Inl e \<Rightarrow> Inl e
         | Inr (d', s') \<Rightarrow> solicit_candidates ag pres cs d' s'))"

definition solicit_intent_to_vote :: "'g agents \<Rightarrow> player \<Rightarrow> 'g game \<Rightarrow> exn + 'g game" where
  "solicit_intent_to_vote ag pres s =
     (case solicit_candidates ag pres (players s) [] s of
        Inl e \<Rightarrow> Inl e
      | Inr (d, s') \<Rightarrow>
          if round_history s' = [] then Inl IndexError
          else Inr (set_last (\<lambda>r. r\<lparr> declared_election_intent := Some d \<rparr>) s'))"

text \<open>
  \<open>select_chancellor\<close>. Only the call is inside the \<open>try\<close>; the reply is stored
  unchecked and then used as a subscript of \<open>self.players\<close>.
\<close>

definition select_chancellor ::
  "'g agents \<Rightarrow> player \<Rightarrow> 'g game \<Rightarrow> exn + (player \<times> pyval \<times> 'g game)" where
  "select_chancellor ag pres s =
     (case ask ag pres Select_chancellor (get_player_percieved_game_state s pres) s of
        (Raise e, s1) \<Rightarrow> Inl (PlayerException pres)
      | (Return chancellor_id, s1) \<Rightarrow>
          if round_history s1 = [] then Inl IndexError
          else
            (case getitem (players s1) chancellor_id of
               Inl e \<Rightarrow> Inl e
             | Inr chanc \<Rightarrow>
                 Inr (chanc, chancellor_id,
                   set_last (\<lambda>r. r\<lparr> chancellor := Some chancellor_id \<rparr>) s1)))"

text \<open>
  \<open>hold_election\<close>. The loop over the voters is \<open>cast_votes\<close>. \<open>len(self.players) / 2\<close>
  is Python's true division: a float, exact for every length a tuple can have, so the
  comparison is the one of the reals.
\<close>

fun cast_votes ::
  "'g agents \<Rightarrow> player list \<Rightarrow> (nat \<times> pyval) list \<Rightarrow> 'g game
     \<Rightarrow> exn + ((nat \<times> pyval) list \<times> 'g game)" where
  "cast_votes ag [] res s = Inr (res, s)"
| "cast_votes ag (p # ps) res s =
     (if p \<in> set (executed_players s) then cast_votes ag ps res s
      else
        (case ask ag p Vote_on_government (get_player_percieved_game_state s p) s of
           (Raise e, s') \<Rightarrow> Inl e
         | (Return v, s') \<Rightarrow>
             cast_votes ag ps (AList.update (index (players s) p) v res) s'))"

definition hold_election :: "'g agents \<Rightarrow> 'g game \<Rightarrow> exn + (bool \<times> 'g game)" where
  "hold_election ag s =
     (case cast_votes ag (players s) [] s of
        Inl e \<Rightarrow> Inl e
      | Inr (results, s1) \<Rightarrow>
          (case py_sum (map snd results) of
             Inl e \<Rightarrow> Inl e
           | Inr votes \<Rightarrow>
               if round_history s1 = [] then Inl IndexError
               else
                 (let successful = (real (length (players s1)) / 2 < real_of_int votes)
                  in Inr (successful,
                       set_last (\<lambda>r. r\<lparr> election_results := Some results,
                                       successful_election := Some successful \<rparr>) s1))))"

text \<open>
  \<open>hold_legislation_session\<close>, block by block in the order of the source. A perceived
  state is built where the source builds it, so it holds what the record holds at that
  moment. Inside a \<open>try\<close> whose handler raises PlayerException, every failure of the
  block (the agent raising, a reply of the wrong shape) becomes that exception.
\<close>

definition draw_legislative_session_policies :: "'g game \<Rightarrow> policy list \<times> 'g game" where
  "draw_legislative_session_policies s =
     (take 3 (policy_deck s), s\<lparr> policy_deck := drop 3 (policy_deck s) \<rparr>)"

definition president_discards ::
  "'g agents \<Rightarrow> player \<Rightarrow> nat \<Rightarrow> 'g game \<Rightarrow> exn + (policy \<times> 'g game)" where
  "president_discards ag pres n s =
     (if n = 0 then Inr (Policy_LIBERAL, s)
      else if n = 1 \<or> n = 2 then
        (case ask ag pres Select_policy_to_discard_as_president
                (get_player_percieved_game_state s pres) s of
           (Return (PyPolicy p), s1) \<Rightarrow> Inr (p, s1)
         | (_, s1) \<Rightarrow> Inl (PlayerException pres))
      else if n = 3 then Inr (Policy_FASCIST, s)
      else Inl ValueError)"

definition chancellor_discards ::
  "'g agents \<Rightarrow> player \<Rightarrow> nat \<Rightarrow> 'g game \<Rightarrow> exn + (policy \<times> policy \<times> 'g game)" where
  "chancellor_discards ag chanc n s =
     (if n = 0 then Inr (Policy_LIBERAL, Policy_LIBERAL, s)
      else if n = 1 then
        (case ask ag chanc Select_policy_to_discard_as_chancellor
                (get_player_percieved_game_state s chanc) s of
           (Return (PyPolicy p), s1) \<Rightarrow>
             Inr (p, (if p = Policy_FASCIST then Policy_LIBERAL else Policy_FASCIST), s1)
         | (_, s1) \<Rightarrow> Inl (PlayerException chanc))
      else if n = 2 then Inr (Policy_FASCIST, Policy_FASCIST, s)
      else Inl UnboundLocalError)"

definition veto_decision ::
  "'g agents \<Rightarrow> player \<Rightarrow> player \<Rightarrow> 'g game \<Rightarrow> exn + (bool \<times> 'g game)" where
  "veto_decision ag pres chanc s =
     (if 5 \<le> fascist_policies_passed s then
        (case ask ag chanc Veto_legislation (get_player_percieved_game_state s chanc) s of
           (Return (PyBool cv), s1) \<Rightarrow>
             (let s2 = set_last (\<lambda>r. r\<lparr> chancellor_veto := Some cv \<rparr>) s1 in
              if cv then
                (case ask ag pres Veto_legislation (get_player_percieved_game_state s2 pres) s2 of
                   (Return (PyBool pv), s3) \<Rightarrow>
                     Inr (pv, set_last (\<lambda>r. r\<lparr> president_veto := Some pv \<rparr>) s3)
                 | (_, s3) \<Rightarrow> Inl (PlayerException pres))
              else Inr (False, s2))
         | (_, s1) \<Rightarrow> Inl (PlayerException chanc))
      else Inr (False, s))"

definition enact_policy :: "bool \<Rightarrow> policy \<Rightarrow> 'g game \<Rightarrow> 'g game" where
  "enact_policy veto sel s =
     (if \<not> veto then
        set_last (\<lambda>r. r\<lparr> selected_policy := Some sel \<rparr>)
          (case sel of
             Policy_LIBERAL \<Rightarrow> s\<lparr> liberal_policies_passed := liberal_policies_passed s + 1 \<rparr>
           | Policy_FASCIST \<Rightarrow> s\<lparr> fascist_policies_passed := fascist_policies_passed s + 1 \<rparr>)
      else s)"

text \<open>
  The president's claim is unpacked into two values: a reply that does not unpack into
  two fails in the \<open>try\<close>. \<open>n not in [0, 1, 2, 3]\<close> compares with \<open>==\<close>, which
  holds, among the values of the model, for the integers 0 to 3 and for the booleans.
\<close>

definition claim_policies ::
  "'g agents \<Rightarrow> player \<Rightarrow> player \<Rightarrow> 'g game \<Rightarrow> exn + 'g game" where
  "claim_policies ag pres chanc s =
     (let president_perceptive = get_player_percieved_game_state s pres;
          chancellor_perceptive = get_player_percieved_game_state s chanc
      in case ask ag pres Claimed_policy_to_discard_as_president president_perceptive s of
           (Raise e, s1) \<Rightarrow> Inl (PlayerException pres)
         | (Return v, s1) \<Rightarrow>
             (case unpack2 v of
                Some (n, PyPolicy pp) \<Rightarrow>
                  (case int_of_pyval n of
                     None \<Rightarrow> Inl (PlayerException pres)
                   | Some i \<Rightarrow>
                       if i < 0 \<or> 3 < i then Inl (PlayerException pres)
                       else
                         (case ask ag chanc Claimed_policy_to_discard_as_chancellor
                                 chancellor_perceptive s1 of
                            (Return (PyPolicy cp), s2) \<Rightarrow>
                              Inr (set_last
                                (\<lambda>r. r\<lparr> president_claimed_number_of_fascist_cards_drawn := Some n,
                                        president_claimed_discarded_policy := Some pp,
                                        chancellor_claimed_discarded_policy := Some cp \<rparr>) s2)
                          | (_, s2) \<Rightarrow> Inl (PlayerException chanc)))
              | _ \<Rightarrow> Inl (PlayerException pres)))"

definition hold_legislation_session ::
  "'g agents \<Rightarrow> player \<Rightarrow> player \<Rightarrow> 'g game \<Rightarrow> exn + (policy \<times> 'g game)" where
  "hold_legislation_session ag pres chanc s =
     (case draw_legislative_session_policies s of
        (legislative_session_policies, s1) \<Rightarrow>
          if round_history s1 = [] then Inl IndexError
          else
            (let np = count_list legislative_session_policies Policy_FASCIST;
                 s2 = set_last (\<lambda>r. r\<lparr> num_fascist_policies_for_president := Some np \<rparr>) s1
             in case president_discards ag pres np s2 of
                  Inl e \<Rightarrow> Inl e
                | Inr (pd, s3) \<Rightarrow>
                    (let nc = (if pd = Policy_LIBERAL then np else np - 1);
                         s4 = set_last
                                (\<lambda>r. r\<lparr> policy_discarded_by_president := Some pd,
                                        num_fascist_policies_for_chancellor := Some nc \<rparr>) s3
                     in case chancellor_discards ag chanc nc s4 of
                          Inl e \<Rightarrow> Inl e
                        | Inr (cd, sel, s5) \<Rightarrow>
                            (case veto_decision ag pres chanc
                                    (set_last (\<lambda>r. r\<lparr> policy_discarded_by_chancellor := Some cd \<rparr>) s5) of
                               Inl e \<Rightarrow> Inl e
                             | Inr (veto, s6) \<Rightarrow>
                                 (case claim_policies ag pres chanc (enact_policy veto sel s6) of
                                    Inl e \<Rightarrow> Inl e
                                  | Inr s7 \<Rightarrow> Inr (sel, s7))))))"

text \<open>The executive actions. \<open>player_id\<close> is the check all three make of a reply.\<close>

definition player_id :: "'g game \<Rightarrow> pyval \<Rightarrow> nat option" where
  "player_id s v =
     (case int_of_pyval v of
        None \<Rightarrow> None
      | Some i \<Rightarrow> if i < 0 \<or> int (length (players s)) - 1 < i then None else Some (nat i))"

definition investigate_player :: "'g agents \<Rightarrow> player \<Rightarrow> 'g game \<Rightarrow> exn + 'g game" where
  "investigate_player ag pres s =
     (let president_perceptive = get_player_percieved_game_state s pres
      in case ask ag pres Select_player_to_investigate president_perceptive s of
           (Raise e, s1) \<Rightarrow> Inl (PlayerException pres)
         | (Return v, s1) \<Rightarrow>
             (case player_id s1 v of
                None \<Rightarrow> Inl (PlayerException pres)
              | Some i \<Rightarrow>
                  (case (if players s1 ! i |\<in>| liberals s1 then Some Allegiance_LIBERAL
                         else if players s1 ! i |\<in>| fascists s1 then Some Allegiance_FASCIST
                         else None) of
                     None \<Rightarrow> Inl ValueError
                   | Some identity \<Rightarrow>
                       if round_history s1 = [] then Inl IndexError
                       else
                         (case ask ag pres Claimed_player_investigation_result
                                 president_perceptive
                                 (set_last (\<lambda>r. r\<lparr> investigated_player := Some v,
                                                  investigated_player_identity := Some identity \<rparr>) s1) of
                            (Raise e, s2) \<Rightarrow> Inl e
                          | (Return c, s2) \<Rightarrow>
                              Inr (set_last
                                (\<lambda>r. r\<lparr> claimed_investigated_player_allegiance := Some c \<rparr>) s2)))))"

definition declare_special_election :: "'g agents \<Rightarrow> player \<Rightarrow> 'g game \<Rightarrow> exn + 'g game" where
  "declare_special_election ag pres s =
     (case ask ag pres Select_special_election_president
             (get_player_percieved_game_state s pres) s of
        (Raise e, s1) \<Rightarrow> Inl (PlayerException pres)
      | (Return v, s1) \<Rightarrow>
          (case player_id s1 v of
             None \<Rightarrow> Inl (PlayerException pres)
           | Some i \<Rightarrow>
               if players s1 ! i = pres then Inl (PlayerException pres)
               else if players s1 ! i \<in> set (executed_players s1) then Inl (PlayerException pres)
               else if round_history s1 = [] then Inl IndexError
               else Inr (set_last (\<lambda>r. r\<lparr> record_special_election_next_president := Some v \<rparr>)
                      (s1\<lparr> special_election_next_president := Some (players s1 ! i) \<rparr>))))"

definition execute_player :: "'g agents \<Rightarrow> player \<Rightarrow> 'g game \<Rightarrow> exn + 'g game" where
  "execute_player ag pres s =
     (case ask ag pres Select_player_to_execute (get_player_percieved_game_state s pres) s of
        (Raise e, s1) \<Rightarrow> Inl (PlayerException pres)
      | (Return v, s1) \<Rightarrow>
          (case player_id s1 v of
             None \<Rightarrow> Inl (PlayerException pres)
           | Some i \<Rightarrow>
               if players s1 ! i \<in> set (executed_players s1) then Inl (PlayerException pres)
               else if round_history s1 = [] then Inl IndexError
               else Inr (set_last (\<lambda>r. r\<lparr> executed_player := Some v \<rparr>)
                      (s1\<lparr> executed_players := executed_players s1 @ [players s1 ! i],
                           presidential_order :=
                             filter (\<lambda>p. p \<noteq> players s1 ! i) (presidential_order s1) \<rparr>))))"

definition executive_action :: "'g agents \<Rightarrow> player \<Rightarrow> 'g game \<Rightarrow> exn + 'g game" where
  "executive_action ag pres s =
     (if fascist_policies_passed s = 1 \<or> fascist_policies_passed s = 2
        then investigate_player ag pres s
      else if fascist_policies_passed s = 3 then declare_special_election ag pres s
      else if fascist_policies_passed s = 4 \<or> fascist_policies_passed s = 5
        then execute_player ag pres s
      else if fascist_policies_passed s = 6 then Inr s
      else Inl ValueError)"

definition draw_anarchy_policy :: "'g game \<Rightarrow> exn + (policy \<times> 'g game)" where
  "draw_anarchy_policy s =
     (case policy_deck s of
        [] \<Rightarrow> Inl IndexError
      | anarchy_card # rest \<Rightarrow> Inr (anarchy_card, s\<lparr> policy_deck := rest \<rparr>))"

definition execute_anarchy :: "'g game \<Rightarrow> exn + 'g game" where
  "execute_anarchy s =
     (case draw_anarchy_policy s of
        Inl e \<Rightarrow> Inl e
      | Inr (next_policy, s1) \<Rightarrow>
          if round_history s1 = [] then Inl IndexError
          else Inr (set_last (\<lambda>r. r\<lparr> anarchy_result := Some next_policy \<rparr>)
                 (case next_policy of
                    Policy_LIBERAL \<Rightarrow>
                      s1\<lparr> liberal_policies_passed := liberal_policies_passed s1 + 1 \<rparr>
                  | Policy_FASCIST \<Rightarrow>
                      s1\<lparr> fascist_policies_passed := fascist_policies_passed s1 + 1 \<rparr>)))"

subsection \<open>A round and a game\<close>

definition play_round :: "'g shuffle \<Rightarrow> 'g agents \<Rightarrow> 'g game \<Rightarrow> exn + 'g game" where
  "play_round shuffle ag s0 =
     (case update_round_history (update_policy_deck shuffle s0) of
        Inl e \<Rightarrow> Inl e
      | Inr s1 \<Rightarrow>
     (case determine_next_president s1 of
        Inl e \<Rightarrow> Inl e
      | Inr (pres, pres_id, s2) \<Rightarrow>
     (case solicit_intent_to_vote ag pres s2 of
        Inl e \<Rightarrow> Inl e
      | Inr s3 \<Rightarrow>
     (case select_chancellor ag pres s3 of
        Inl e \<Rightarrow> Inl e
      | Inr (chanc, chanc_id, s4) \<Rightarrow>
     (case hold_election ag s4 of
        Inl e \<Rightarrow> Inl e
      | Inr (successful, s5) \<Rightarrow>
          if successful then
            if 3 \<le> fascist_policies_passed s5 \<and> chanc = hitler s5
            then Inr (s5\<lparr> elected_hitler := True \<rparr>)
            else
              (case hold_legislation_session ag pres chanc s5 of
                 Inl e \<Rightarrow> Inl e
               | Inr (passed_policy, s6) \<Rightarrow>
                   if passed_policy = Policy_FASCIST then executive_action ag pres s6
                   else Inr s6)
          else
            (let s6 = s5\<lparr> anarchy_counter := anarchy_counter s5 + 1 \<rparr>
             in if anarchy_counter s6 = 3 then execute_anarchy s6 else Inr s6))))))"

text \<open>
  \<open>play_game\<close>. The \<open>while\<close> loop need not end (a table that votes every government
  down passes no policy after the first forced one), so the loop takes fuel: \<open>None\<close> is
  a loop that has not ended within that many rounds. The reason string of a fault is
  \<open>"\n".join(format_exception(e))\<close>, the traceback text, kept here as the exception it
  formats. When the player named by the exception is in neither set, the source builds a
  ValueError without raising it and the method returns \<open>None\<close>.
\<close>

fun play_rounds ::
  "nat \<Rightarrow> 'g shuffle \<Rightarrow> 'g agents \<Rightarrow> 'g game \<Rightarrow> (exn + 'g game) option" where
  "play_rounds 0 shuffle ag s =
     (if fst (determine_if_winner s) = None then None else Some (Inr s))"
| "play_rounds (Suc n) shuffle ag s =
     (if fst (determine_if_winner s) = None then
        (case play_round shuffle ag s of
           Inl e \<Rightarrow> Some (Inl e)
         | Inr s' \<Rightarrow> play_rounds n shuffle ag s')
      else Some (Inr s))"

text \<open>The game after the loop body has run at most \<open>n\<close> times (fewer when it ended).\<close>

fun after_rounds ::
  "nat \<Rightarrow> 'g shuffle \<Rightarrow> 'g agents \<Rightarrow> 'g game \<Rightarrow> exn + 'g game" where
  "after_rounds 0 shuffle ag s = Inr s"
| "after_rounds (Suc n) shuffle ag s =
     (if fst (determine_if_winner s) = None then
        (case play_round shuffle ag s of
           Inl e \<Rightarrow> Inl e
         | Inr s' \<Rightarrow> after_rounds n shuffle ag s')
      else Inr s)"

datatype reason = Reason string | Formatted_exception exn

type_synonym outcome = "(allegiance option \<times> reason option) option"

definition play_game ::
  "nat \<Rightarrow> 'g shuffle \<Rightarrow> 'g agents \<Rightarrow> 'g game \<Rightarrow> (exn + outcome) option" where
  "play_game fuel shuffle ag s =
     (case play_rounds fuel shuffle ag s of
        None \<Rightarrow> None
      | Some (Inr s') \<Rightarrow>
          Some (Inr (Some (fst (determine_if_winner s'),
                           map_option Reason (snd (determine_if_winner s')))))
      | Some (Inl (PlayerException p)) \<Rightarrow>
          if p |\<in>| liberals s
            then Some (Inr (Some (Some Allegiance_FASCIST,
                                  Some (Formatted_exception (PlayerException p)))))
          else if p |\<in>| fascists s
            then Some (Inr (Some (Some Allegiance_LIBERAL,
                                  Some (Formatted_exception (PlayerException p)))))
          else Some (Inr None)
      | Some (Inl e) \<Rightarrow> Some (Inl e))"

subsection \<open>Example inputs\<close>

text \<open>
  A five-player table: players 0, 1 and 2 are liberal, 3 and 4 fascist, 4 is Hitler, the
  presidential order is 0, 1, 2, 3, 4. \<open>example_game deck lp fp\<close> is that game with the
  given deck and tallies and no round played; the generator's state is a counter.
\<close>

definition example_game :: "policy list \<Rightarrow> nat \<Rightarrow> nat \<Rightarrow> nat game" where
  "example_game deck lp fp =
     \<lparr> liberals = {|0, 1, 2|}, fascists = {|3, 4|}, hitler = 4,
       policy_deck = deck, presidential_order = [0, 1, 2, 3, 4],
       round_history = [], players = [0, 1, 2, 3, 4], executed_players = [],
       special_election_next_president = None,
       previous_government = {||}, anarchy_counter = 0,
       liberal_policies_passed = lp, fascist_policies_passed = fp,
       shot_hitler = False, elected_hitler = False,
       random_number_generator = 0, random_state = 0 \<rparr>"

text \<open>A shuffle for the examples: it reverses the list and advances the counter.\<close>

definition example_shuffle :: "nat shuffle" where
  "example_shuffle g xs = (rev xs, Suc g)"

text \<open>
  Agents for the examples. \<open>base_reply\<close> is a table of in-domain replies, one per method;
  \<open>agents_of tbl\<close> are agents that all answer from the table \<open>tbl\<close>, whatever they are
  shown, and draw one random number per call.
\<close>

fun base_reply :: "player_method \<Rightarrow> reply" where
  "base_reply Select_chancellor = Return (PyInt 1)"
| "base_reply Intent_to_vote_on_government = Return (PyBool True)"
| "base_reply Vote_on_government = Return (PyBool True)"
| "base_reply Select_policy_to_discard_as_president = Return (PyPolicy Policy_FASCIST)"
| "base_reply Select_policy_to_discard_as_chancellor = Return (PyPolicy Policy_FASCIST)"
| "base_reply Veto_legislation = Return (PyBool False)"
| "base_reply Claimed_policy_to_discard_as_president =
     Return (PyTuple [PyInt 0, PyPolicy Policy_LIBERAL])"
| "base_reply Claimed_policy_to_discard_as_chancellor = Return (PyPolicy Policy_LIBERAL)"
| "base_reply Select_player_to_investigate = Return (PyInt 1)"
| "base_reply Claimed_player_investigation_result = Return (PyAllegiance Allegiance_LIBERAL)"
| "base_reply Select_special_election_president = Return (PyInt 1)"
| "base_reply Select_player_to_execute = Return (PyInt 2)"

definition agents_of :: "(player_method \<Rightarrow> reply) \<Rightarrow> nat agents" where
  "agents_of tbl p m view g = (tbl m, Suc g)"

text \<open>
  Agents that nominate their right-hand neighbour as chancellor and, as president, shoot
  player 4 in the first round and player 0 later.
\<close>

definition shooting_agents :: "nat agents" where
  "shooting_agents p m view g =
     (if m = Select_chancellor then Return (PyInt (int p + 1))
      else if m = Select_player_to_execute
        then Return (PyInt (if length view = 1 then 4 else 0))
      else base_reply m, Suc g)"

text \<open>Agents that vote yes in the second round only.\<close>

definition second_round_agents :: "nat agents" where
  "second_round_agents p m view g =
     (if m = Vote_on_government then Return (PyBool (length view = 2)) else base_reply m, Suc g)"



text \<open>
  A shuffle whose result depends on the generator's state (it rotates the list by it), and
  agents that answer from a table like \<open>agents_of\<close> but draw three random numbers
  per call.
\<close>

definition rotating_shuffle :: "nat shuffle" where
  "rotating_shuffle g xs = (rotate g xs, Suc g)"

definition greedy_agents_of :: "(player_method \<Rightarrow> reply) \<Rightarrow> nat agents" where
  "greedy_agents_of tbl p m view g = (tbl m, Suc (Suc (Suc g)))"

subsection \<open>What a round draws\<close>

text \<open>
  The deck, together with the two attributes of the current round's record that say what
  was drawn from it: the number of fascist cards among the three handed to the president,
  and the card turned over after the third failed election.
\<close>

definition deck_trace :: "'g game \<Rightarrow> policy list \<times> nat option \<times> policy option" where
  "deck_trace s =
     (policy_deck s,
      num_fascist_policies_for_president (last (round_history s)),
      anarchy_result (last (round_history s)))"

subsection \<open>What a round records of its election\<close>

text \<open>
  Who is seated, who is dead and the streak of failed elections; and, for the phases that
  follow the election, what the current round's record says of it. \<open>all_bool\<close> holds
  of a dict of votes whose values are all booleans.
\<close>

definition seating :: "'g game \<Rightarrow> player list \<times> player list \<times> nat" where
  "seating s = (players s, executed_players s, anarchy_counter s)"

definition election_trace ::
  "'g game \<Rightarrow> player list \<times> nat \<times> (nat \<times> pyval) list option \<times> bool option" where
  "election_trace s =
     (players s, anarchy_counter s,
      election_results (last (round_history s)),
      successful_election (last (round_history s)))"



subsection \<open>Two games that differ in the module-level generator only\<close>

text \<open>
  \<open>engine_eq s t\<close>: the game objects \<open>s\<close> and \<open>t\<close> have the same attributes (the
  saved generator state \<open>random_number_generator\<close> among them); the state of the
  module-level generator of \<open>random\<close> may differ.
\<close>

definition engine_eq :: "'g game \<Rightarrow> 'g game \<Rightarrow> bool" where
  "engine_eq s t \<longleftrightarrow> t = s\<lparr> random_state := random_state t \<rparr>"

section \<open>Properties\<close>

subsection \<open>Auxiliary facts\<close>

lemma ask_eq:
  "ask ag p m view s =
     (fst (ag p m view (random_state s)), s\<lparr> random_state := snd (ag p m view (random_state s)) \<rparr>)"
  by (simp add: ask_def split: prod.splits)



subsection \<open>Construction\<close>

text \<open>
  C10. \<open>Game.__init__\<close> checks neither that Hitler is a fascist nor that the liberal and
  the fascist sets are disjoint. Construction succeeds for the five-player table with
  Hitler (player 0) in the liberal set, and for one where Hitler (player 4) is in
  neither set and player 0 is in both. It raises exactly when some player of the
  presidential order has no role (is neither liberal, fascist nor Hitler), a liberal or
  a fascist is absent from the presidential order, Hitler is absent from it, or the sizes
  of the two sets do not match the table entry of the number of players (which includes
  the case of a number of players that the table has no entry for: the lookup raises).
\<close>

theorem Game_init_validation:
  "\<not> isl (Game_init {|0, 1, 2|} {|3, 4|} 0 deck [0, 1, 2, 3, 4] g)
   \<and> \<not> isl (Game_init {|0, 1, 2|} {|3, 0|} 4 deck [0, 1, 2, 3, 4] g)
   \<and> (\<forall>libs fascs hit order.
        isl (Game_init libs fascs hit deck order g) \<longleftrightarrow>
          (\<exists>p \<in> set order. p |\<notin>| libs \<and> p |\<notin>| fascs \<and> p \<noteq> hit)
          \<or> \<not> libs |\<subseteq>| fset_of_list order
          \<or> \<not> fascs |\<subseteq>| fset_of_list order
          \<or> hit \<notin> set order
          \<or> PARTY_MEMBERSHIP_BY_PLAYERS (length order) Allegiance_LIBERAL \<noteq> Some (fcard libs)
          \<or> PARTY_MEMBERSHIP_BY_PLAYERS (length order) Allegiance_FASCIST \<noteq> Some (fcard fascs))"
proof (intro conjI allI)
  show "\<not> isl (Game_init {|0, 1, 2|} {|3, 4|} 0 deck [0, 1, 2, 3, 4] g)"
    by (simp add: Game_init_def fcard_finsert_if)
  show "\<not> isl (Game_init {|0, 1, 2|} {|3, 0|} 4 deck [0, 1, 2, 3, 4] g)"
    by (simp add: Game_init_def fcard_finsert_if)
next
  fix libs fascs hit order
  show "isl (Game_init libs fascs hit deck order g) \<longleftrightarrow>
          (\<exists>p \<in> set order. p |\<notin>| libs \<and> p |\<notin>| fascs \<and> p \<noteq> hit)
          \<or> \<not> libs |\<subseteq>| fset_of_list order
          \<or> \<not> fascs |\<subseteq>| fset_of_list order
          \<or> hit \<notin> set order
          \<or> PARTY_MEMBERSHIP_BY_PLAYERS (length order) Allegiance_LIBERAL \<noteq> Some (fcard libs)
          \<or> PARTY_MEMBERSHIP_BY_PLAYERS (length order) Allegiance_FASCIST \<noteq> Some (fcard fascs)"
    unfolding Game_init_def Let_def list_ex_iff
    by (auto split: option.splits simp del: PARTY_MEMBERSHIP_BY_PLAYERS.simps)
qed

text \<open>
  The characterisation at work: a four-player table raises (the table has no entry), and
  a five-player table whose player 2 has no role raises.
\<close>

theorem Game_init_validation_witness:
  "isl (Game_init {|0, 1|} {|2, 3|} 3 [] [0, 1, 2, 3] (0::nat))
   \<and> isl (Game_init {|0, 1, 5|} {|3, 4|} 4 [] [0, 1, 2, 3, 4] (0::nat))"
  using Game_init_validation [of "[]" "0::nat"]
  by (simp add: fcard_finsert_if)

subsection \<open>The policy deck\<close>



text \<open>
  No phase of a round but the two draws touches the deck, and the two attributes of the
  current record that log a draw are written by the draws only.
\<close>

lemma deck_trace_random_state [simp]: "deck_trace (s\<lparr> random_state := g \<rparr>) = deck_trace s"
  by (simp add: deck_trace_def)





























subsection \<open>The election\<close>

text \<open>
  The loop over the voters, for agents whose vote is a boolean: it ends without a fault,
  the dict of votes has exactly the ids of the living players as keys, its values are
  booleans, and only the module-level generator has changed.
\<close>

lemma update_entries:
  "(a, b) \<in> set (AList.update k v al) \<Longrightarrow> (a, b) = (k, v) \<or> (a, b) \<in> set al"
  by (induction al) (auto split: if_splits)









lemma seating_random_state [simp]: "seating (s\<lparr> random_state := g \<rparr>) = seating s"
  by (simp add: seating_def)

lemma seating_set_last [simp]: "seating (set_last f s) = seating s"
  by (simp add: seating_def set_last_def)

lemma election_trace_random_state [simp]:
  "election_trace (s\<lparr> random_state := g \<rparr>) = election_trace s"
  by (simp add: election_trace_def)























subsection \<open>The deck's generator\<close>

text \<open>
  Two runs whose agents reply alike, whatever the module-level generator's state is when
  they are asked, and whatever state they leave it in. Phase by phase: started from games
  that differ in the module-level generator only, the two runs raise the same exception
  or return the same values and games that again differ in that generator only.
\<close>

lemma engine_eq_update [simp]: "engine_eq (s\<lparr> random_state := g \<rparr>) (s\<lparr> random_state := h \<rparr>)"
  by (simp add: engine_eq_def)

lemma engine_eq_right [simp]: "engine_eq s (s\<lparr> random_state := h \<rparr>)"
  by (simp add: engine_eq_def)

lemma engine_eq_refl [simp]: "engine_eq s s"
  by (simp add: engine_eq_def)

lemma engine_eqE:
  assumes "engine_eq s t"
  obtains h where "t = s\<lparr> random_state := h \<rparr>"
  using assms unfolding engine_eq_def by blast

lemma set_last_random_state [simp]:
  "set_last f (s\<lparr> random_state := g \<rparr>) = (set_last f s)\<lparr> random_state := g \<rparr>"
  by (simp add: set_last_def)

lemma view_random_state [simp]:
  "get_player_percieved_game_state (s\<lparr> random_state := h \<rparr>) p = get_player_percieved_game_state s p"
  by (simp add: get_player_percieved_game_state_def)

lemma random_state_set_last [simp]: "random_state (set_last f s) = random_state s"
  by (simp add: set_last_def)

lemma select_chancellor_ni:
  assumes d1: "\<And>p m view g. fst (ag1 p m view g) = d p m view"
      and d2: "\<And>p m view g. fst (ag2 p m view g) = d p m view"
      and e: "engine_eq s t"
  shows "rel_sum (=) (rel_prod (=) (rel_prod (=) engine_eq))
           (select_chancellor ag1 pres s) (select_chancellor ag2 pres t)"
proof -
  from e obtain h where t: "t = s\<lparr> random_state := h \<rparr>" by (rule engine_eqE)
  show ?thesis
    unfolding t select_chancellor_def
    by (simp add: ask_eq d1 d2 split: reply.splits sum.splits)
qed

lemma veto_decision_ni:
  assumes d1: "\<And>p m view g. fst (ag1 p m view g) = d p m view"
      and d2: "\<And>p m view g. fst (ag2 p m view g) = d p m view"
      and e: "engine_eq s t"
  shows "rel_sum (=) (rel_prod (=) engine_eq)
           (veto_decision ag1 pres chanc s) (veto_decision ag2 pres chanc t)"
proof -
  from e obtain h where t: "t = s\<lparr> random_state := h \<rparr>" by (rule engine_eqE)
  show ?thesis
    unfolding t veto_decision_def
    by (simp add: ask_eq d1 d2 Let_def split: reply.splits pyval.splits)
qed

lemma claim_policies_ni:
  assumes d1: "\<And>p m view g. fst (ag1 p m view g) = d p m view"
      and d2: "\<And>p m view g. fst (ag2 p m view g) = d p m view"
      and e: "engine_eq s t"
  shows "rel_sum (=) engine_eq
           (claim_policies ag1 pres chanc s) (claim_policies ag2 pres chanc t)"
proof -
  from e obtain h where t: "t = s\<lparr> random_state := h \<rparr>" by (rule engine_eqE)
  show ?thesis
    unfolding t claim_policies_def
    by (simp add: ask_eq d1 d2 Let_def split: reply.splits pyval.splits option.splits prod.splits)
qed

lemma investigate_player_ni:
  assumes d1: "\<And>p m view g. fst (ag1 p m view g) = d p m view"
      and d2: "\<And>p m view g. fst (ag2 p m view g) = d p m view"
      and e: "engine_eq s t"
  shows "rel_sum (=) engine_eq
           (investigate_player ag1 pres s) (investigate_player ag2 pres t)"
proof -
  from e obtain h where t: "t = s\<lparr> random_state := h \<rparr>" by (rule engine_eqE)
  show ?thesis
    unfolding t investigate_player_def
    by (simp add: ask_eq d1 d2 Let_def player_id_def split: reply.splits option.splits)
qed


lemma rel_sum_bind:
  assumes "rel_sum (=) R x y"
      and "\<And>a b. R a b \<Longrightarrow> rel_sum (=) S (f a) (g b)"
  shows "rel_sum (=) S (case x of Inl e \<Rightarrow> Inl e | Inr a \<Rightarrow> f a)
           (case y of Inl e \<Rightarrow> Inl e | Inr b \<Rightarrow> g b)"
  using assms by (cases x; cases y) simp_all

lemma rel_sum_bind2:
  assumes "rel_sum (=) (rel_prod (=) R) x y"
      and "\<And>a s t. R s t \<Longrightarrow> rel_sum (=) S (f a s) (g a t)"
  shows "rel_sum (=) S (case x of Inl e \<Rightarrow> Inl e | Inr (a, s) \<Rightarrow> f a s)
           (case y of Inl e \<Rightarrow> Inl e | Inr (a, t) \<Rightarrow> g a t)"
  using assms by (cases x; cases y) auto

lemma rel_sum_bind3:
  assumes "rel_sum (=) (rel_prod (=) (rel_prod (=) R)) x y"
      and "\<And>a b s t. R s t \<Longrightarrow> rel_sum (=) S (f a b s) (g a b t)"
  shows "rel_sum (=) S (case x of Inl e \<Rightarrow> Inl e | Inr (a, b, s) \<Rightarrow> f a b s)
           (case y of Inl e \<Rightarrow> Inl e | Inr (a, b, t) \<Rightarrow> g a b t)"
  using assms by (cases x; cases y) auto

lemma solicit_voters_ni_aux:
  assumes d1: "\<And>p m view g. fst (ag1 p m view g) = d p m view"
      and d2: "\<And>p m view g. fst (ag2 p m view g) = d p m view"
  shows "rel_sum (=) (rel_prod (=) engine_eq)
           (solicit_voters ag1 cid ps dd s)
           (solicit_voters ag2 cid ps dd (s\<lparr> random_state := h \<rparr>))"
proof (induction ps arbitrary: dd s h)
  case Nil
  show ?case by simp
next
  case (Cons p ps)
  let ?view = "get_player_percieved_game_state s p"
  show ?case
  proof (cases "p \<in> set (executed_players s)")
    case True
    then show ?thesis using Cons.IH [of dd s h] by simp
  next
    case False
    show ?thesis
    proof (cases "d p Intent_to_vote_on_government ?view")
      case (Raise e)
      with False show ?thesis by (simp add: ask_eq d1 d2)
    next
      case (Return v)
      with False show ?thesis
        using Cons.IH [of "setdefault_set cid (index (players s) p) v dd"
            "s\<lparr> random_state := snd (ag1 p Intent_to_vote_on_government ?view (random_state s)) \<rparr>"
            "snd (ag2 p Intent_to_vote_on_government ?view h)"]
        by (simp add: ask_eq d1 d2)
    qed
  qed
qed

lemma solicit_voters_ni:
  assumes d1: "\<And>p m view g. fst (ag1 p m view g) = d p m view"
      and d2: "\<And>p m view g. fst (ag2 p m view g) = d p m view"
      and e: "engine_eq s t"
  shows "rel_sum (=) (rel_prod (=) engine_eq)
           (solicit_voters ag1 cid ps dd s) (solicit_voters ag2 cid ps dd t)"
proof -
  from e obtain h where t: "t = s\<lparr> random_state := h \<rparr>" by (rule engine_eqE)
  show ?thesis unfolding t using d1 d2 by (rule solicit_voters_ni_aux)
qed

lemma solicit_candidates_ni:
  assumes d1: "\<And>p m view g. fst (ag1 p m view g) = d p m view"
      and d2: "\<And>p m view g. fst (ag2 p m view g) = d p m view"
      and e: "engine_eq s t"
  shows "rel_sum (=) (rel_prod (=) engine_eq)
           (solicit_candidates ag1 pres cs dd s) (solicit_candidates ag2 pres cs dd t)"
  using e
proof (induction cs arbitrary: dd s t)
  case Nil
  then show ?case by simp
next
  case (Cons c cs)
  from Cons.prems obtain h where t: "t = s\<lparr> random_state := h \<rparr>" by (rule engine_eqE)
  show ?case
  proof (cases "c \<in> set (executed_players s) \<or> c = pres
         \<or> (c |\<in>| previous_government s \<and> 5 < length (presidential_order s))")
    case True
    then show ?thesis using Cons.IH [OF Cons.prems] by (simp add: t)
  next
    case False
    have step1: "solicit_candidates ag1 pres (c # cs) dd s =
            (case solicit_voters ag1 (index (players s) c) (players s) dd s of
               Inl e \<Rightarrow> Inl e
             | Inr a \<Rightarrow> (case a of (d', s') \<Rightarrow> solicit_candidates ag1 pres cs d' s'))"
      using False by auto
    have step2: "solicit_candidates ag2 pres (c # cs) dd t =
            (case solicit_voters ag2 (index (players s) c) (players s) dd t of
               Inl e \<Rightarrow> Inl e
             | Inr a \<Rightarrow> (case a of (d', s') \<Rightarrow> solicit_candidates ag2 pres cs d' s'))"
      using False unfolding t by auto
    show ?thesis
      unfolding step1 step2
    proof (rule rel_sum_bind [OF solicit_voters_ni [OF d1 d2 Cons.prems]])
      fix a b :: "intent \<times> 'a game"
      assume "rel_prod (=) engine_eq a b"
      then show "rel_sum (=) (rel_prod (=) engine_eq)
                   (case a of (d', s') \<Rightarrow> solicit_candidates ag1 pres cs d' s')
                   (case b of (d', s') \<Rightarrow> solicit_candidates ag2 pres cs d' s')"
        using Cons.IH by (cases a; cases b) simp
    qed
  qed
qed


lemma engine_eq_set_lastI: "engine_eq s t \<Longrightarrow> engine_eq (set_last f s) (set_last f t)"
  by (erule engine_eqE) simp

lemma engine_eq_enactI:
  "engine_eq s t \<Longrightarrow> engine_eq (enact_policy veto sel s) (enact_policy veto sel t)"
  by (erule engine_eqE) (cases sel; simp add: enact_policy_def engine_eq_def set_last_def)

lemma solicit_intent_to_vote_ni:
  assumes d1: "\<And>p m view g. fst (ag1 p m view g) = d p m view"
      and d2: "\<And>p m view g. fst (ag2 p m view g) = d p m view"
      and e: "engine_eq s t"
  shows "rel_sum (=) engine_eq
           (solicit_intent_to_vote ag1 pres s) (solicit_intent_to_vote ag2 pres t)"
proof -
  from e obtain h where t: "t = s\<lparr> random_state := h \<rparr>" by (rule engine_eqE)
  have pl: "players t = players s" by (simp add: t)
  show ?thesis
    unfolding solicit_intent_to_vote_def pl
    apply (rule rel_sum_bind [OF solicit_candidates_ni [OF d1 d2 e]])
    apply (clarsimp elim!: engine_eqE)
    done
qed

lemma cast_votes_ni_aux:
  assumes d1: "\<And>p m view g. fst (ag1 p m view g) = d p m view"
      and d2: "\<And>p m view g. fst (ag2 p m view g) = d p m view"
  shows "rel_sum (=) (rel_prod (=) engine_eq)
           (cast_votes ag1 ps res s)
           (cast_votes ag2 ps res (s\<lparr> random_state := h \<rparr>))"
proof (induction ps arbitrary: res s h)
  case Nil
  show ?case by simp
next
  case (Cons p ps)
  let ?view = "get_player_percieved_game_state s p"
  show ?case
  proof (cases "p \<in> set (executed_players s)")
    case True
    then show ?thesis using Cons.IH [of res s h] by simp
  next
    case False
    show ?thesis
    proof (cases "d p Vote_on_government ?view")
      case (Raise e)
      with False show ?thesis by (simp add: ask_eq d1 d2)
    next
      case (Return v)
      with False show ?thesis
        using Cons.IH [of "AList.update (index (players s) p) v res"
            "s\<lparr> random_state := snd (ag1 p Vote_on_government ?view (random_state s)) \<rparr>"
            "snd (ag2 p Vote_on_government ?view h)"]
        by (simp add: ask_eq d1 d2)
    qed
  qed
qed

lemma hold_election_ni:
  assumes d1: "\<And>p m view g. fst (ag1 p m view g) = d p m view"
      and d2: "\<And>p m view g. fst (ag2 p m view g) = d p m view"
      and e: "engine_eq s t"
  shows "rel_sum (=) (rel_prod (=) engine_eq) (hold_election ag1 s) (hold_election ag2 t)"
proof -
  from e obtain h where t: "t = s\<lparr> random_state := h \<rparr>" by (rule engine_eqE)
  have c: "rel_sum (=) (rel_prod (=) engine_eq)
             (cast_votes ag1 (players s) [] s) (cast_votes ag2 (players s) [] t)"
    unfolding t using d1 d2 by (rule cast_votes_ni_aux)
  have pl: "players t = players s" by (simp add: t)
  show ?thesis
    unfolding hold_election_def pl
    apply (rule rel_sum_bind [OF c])
    apply (clarsimp elim!: engine_eqE simp: Let_def split: sum.splits)
    done
qed

lemma president_discards_ni:
  assumes d1: "\<And>p m view g. fst (ag1 p m view g) = d p m view"
      and d2: "\<And>p m view g. fst (ag2 p m view g) = d p m view"
      and e: "engine_eq s t"
  shows "rel_sum (=) (rel_prod (=) engine_eq)
           (president_discards ag1 pres n s) (president_discards ag2 pres n t)"
proof -
  from e obtain h where t: "t = s\<lparr> random_state := h \<rparr>" by (rule engine_eqE)
  show ?thesis
    unfolding t president_discards_def
    by (simp add: ask_eq d1 d2 split: reply.splits pyval.splits)
qed

lemma chancellor_discards_ni:
  assumes d1: "\<And>p m view g. fst (ag1 p m view g) = d p m view"
      and d2: "\<And>p m view g. fst (ag2 p m view g) = d p m view"
      and e: "engine_eq s t"
  shows "rel_sum (=) (rel_prod (=) (rel_prod (=) engine_eq))
           (chancellor_discards ag1 chanc n s) (chancellor_discards ag2 chanc n t)"
proof -
  from e obtain h where t: "t = s\<lparr> random_state := h \<rparr>" by (rule engine_eqE)
  show ?thesis
    unfolding t chancellor_discards_def
    by (simp add: ask_eq d1 d2 split: reply.splits pyval.splits)
qed

lemma declare_special_election_ni:
  assumes d1: "\<And>p m view g. fst (ag1 p m view g) = d p m view"
      and d2: "\<And>p m view g. fst (ag2 p m view g) = d p m view"
      and e: "engine_eq s t"
  shows "rel_sum (=) engine_eq
           (declare_special_election ag1 pres s) (declare_special_election ag2 pres t)"
proof -
  from e obtain h where t: "t = s\<lparr> random_state := h \<rparr>" by (rule engine_eqE)
  show ?thesis
    unfolding t declare_special_election_def
    by (simp add: ask_eq d1 d2 player_id_def engine_eq_def set_last_def
          split: reply.splits option.splits)
qed

lemma execute_player_ni:
  assumes d1: "\<And>p m view g. fst (ag1 p m view g) = d p m view"
      and d2: "\<And>p m view g. fst (ag2 p m view g) = d p m view"
      and e: "engine_eq s t"
  shows "rel_sum (=) engine_eq (execute_player ag1 pres s) (execute_player ag2 pres t)"
proof -
  from e obtain h where t: "t = s\<lparr> random_state := h \<rparr>" by (rule engine_eqE)
  show ?thesis
    unfolding t execute_player_def
    by (simp add: ask_eq d1 d2 player_id_def engine_eq_def set_last_def
          split: reply.splits option.splits)
qed

lemma executive_action_ni:
  assumes d1: "\<And>p m view g. fst (ag1 p m view g) = d p m view"
      and d2: "\<And>p m view g. fst (ag2 p m view g) = d p m view"
      and e: "engine_eq s t"
  shows "rel_sum (=) engine_eq (executive_action ag1 pres s) (executive_action ag2 pres t)"
proof -
  from e obtain h where t: "t = s\<lparr> random_state := h \<rparr>" by (rule engine_eqE)
  have f: "fascist_policies_passed t = fascist_policies_passed s" by (simp add: t)
  show ?thesis
    unfolding executive_action_def f
    using investigate_player_ni [OF d1 d2 e] declare_special_election_ni [OF d1 d2 e]
      execute_player_ni [OF d1 d2 e] e
    by simp
qed

lemma execute_anarchy_ni:
  assumes e: "engine_eq s t"
  shows "rel_sum (=) engine_eq (execute_anarchy s) (execute_anarchy t)"
proof -
  from e obtain h where t: "t = s\<lparr> random_state := h \<rparr>" by (rule engine_eqE)
  show ?thesis
    unfolding t execute_anarchy_def draw_anarchy_policy_def
    by (simp add: engine_eq_def set_last_def split: list.splits policy.splits)
qed

lemma update_policy_deck_ni:
  assumes e: "engine_eq s t"
  shows "engine_eq (update_policy_deck shuffle s) (update_policy_deck shuffle t)"
proof -
  from e obtain h where t: "t = s\<lparr> random_state := h \<rparr>" by (rule engine_eqE)
  show ?thesis
    unfolding t update_policy_deck_def
    by (simp add: engine_eq_def Let_def split: prod.splits)
qed

lemma update_round_history_ni:
  assumes e: "engine_eq s t"
  shows "rel_sum (=) engine_eq (update_round_history s) (update_round_history t)"
proof -
  from e obtain h where t: "t = s\<lparr> random_state := h \<rparr>" by (rule engine_eqE)
  show ?thesis
    unfolding t update_round_history_def
    by (simp add: engine_eq_def)
qed

lemma determine_next_president_ni:
  assumes e: "engine_eq s t"
  shows "rel_sum (=) (rel_prod (=) (rel_prod (=) engine_eq))
           (determine_next_president s) (determine_next_president t)"
proof -
  from e obtain h where t: "t = s\<lparr> random_state := h \<rparr>" by (rule engine_eqE)
  show ?thesis
    unfolding t determine_next_president_def
    by (simp add: engine_eq_def set_last_def split: option.splits list.splits)
qed


lemma hold_legislation_session_ni:
  assumes d1: "\<And>p m view g. fst (ag1 p m view g) = d p m view"
      and d2: "\<And>p m view g. fst (ag2 p m view g) = d p m view"
      and e: "engine_eq s t"
  shows "rel_sum (=) (rel_prod (=) engine_eq)
           (hold_legislation_session ag1 pres chanc s)
           (hold_legislation_session ag2 pres chanc t)"
proof -
  from e obtain h where t: "t = s\<lparr> random_state := h \<rparr>" by (rule engine_eqE)
  have f: "policy_deck t = policy_deck s"
    by (simp add: t)
  have dk: "engine_eq (s\<lparr> policy_deck := X \<rparr>) (t\<lparr> policy_deck := X \<rparr>)" for X
    by (simp add: t engine_eq_def)
  have hist: "round_history (t\<lparr> policy_deck := X \<rparr>) = round_history (s\<lparr> policy_deck := X \<rparr>)"
    for X by (simp add: t)
  show ?thesis
    unfolding hold_legislation_session_def draw_legislative_session_policies_def
      Let_def prod.case f hist
    apply (cases "round_history (s\<lparr> policy_deck := drop 3 (policy_deck s) \<rparr>) = []")
     apply simp
    apply (simp only: if_not_P if_False)
    apply (rule rel_sum_bind2 [OF president_discards_ni [OF d1 d2]])
     apply (rule engine_eq_set_lastI [OF dk])
    apply (rule rel_sum_bind3 [OF chancellor_discards_ni [OF d1 d2]])
     apply (erule engine_eq_set_lastI)
    apply (rule rel_sum_bind2 [OF veto_decision_ni [OF d1 d2]])
     apply (erule engine_eq_set_lastI)
    apply (rule rel_sum_bind [OF claim_policies_ni [OF d1 d2]])
     apply (erule engine_eq_enactI)
    apply simp
    done
qed

lemma round_end_ni:
  assumes d1: "\<And>p m view g. fst (ag1 p m view g) = d p m view"
      and d2: "\<And>p m view g. fst (ag2 p m view g) = d p m view"
      and e: "engine_eq s t"
  shows "rel_sum (=) engine_eq
     (if ok then
        if 3 \<le> fascist_policies_passed s \<and> chanc = hitler s
        then Inr (s\<lparr> elected_hitler := True \<rparr>)
        else
          (case hold_legislation_session ag1 pres chanc s of
             Inl e \<Rightarrow> Inl e
           | Inr (passed_policy, s6) \<Rightarrow>
               if passed_policy = Policy_FASCIST then executive_action ag1 pres s6
               else Inr s6)
      else
        (let s6 = s\<lparr> anarchy_counter := anarchy_counter s + 1 \<rparr>
         in if anarchy_counter s6 = 3 then execute_anarchy s6 else Inr s6))
     (if ok then
        if 3 \<le> fascist_policies_passed t \<and> chanc = hitler t
        then Inr (t\<lparr> elected_hitler := True \<rparr>)
        else
          (case hold_legislation_session ag2 pres chanc t of
             Inl e \<Rightarrow> Inl e
           | Inr (passed_policy, s6) \<Rightarrow>
               if passed_policy = Policy_FASCIST then executive_action ag2 pres s6
               else Inr s6)
      else
        (let s6 = t\<lparr> anarchy_counter := anarchy_counter t + 1 \<rparr>
         in if anarchy_counter s6 = 3 then execute_anarchy s6 else Inr s6))"
proof -
  from e obtain h where t: "t = s\<lparr> random_state := h \<rparr>" by (rule engine_eqE)
  have f: "fascist_policies_passed t = fascist_policies_passed s" "hitler t = hitler s"
    "anarchy_counter t = anarchy_counter s"
    by (simp_all add: t)
  have a: "engine_eq (s\<lparr> elected_hitler := True \<rparr>) (t\<lparr> elected_hitler := True \<rparr>)"
    by (simp add: t engine_eq_def)
  have b: "engine_eq (s\<lparr> anarchy_counter := n \<rparr>) (t\<lparr> anarchy_counter := n \<rparr>)" for n
    by (simp add: t engine_eq_def)
  have session: "rel_sum (=) engine_eq
          (case hold_legislation_session ag1 pres chanc s of
             Inl e \<Rightarrow> Inl e
           | Inr (passed_policy, s6) \<Rightarrow>
               if passed_policy = Policy_FASCIST then executive_action ag1 pres s6
               else Inr s6)
          (case hold_legislation_session ag2 pres chanc t of
             Inl e \<Rightarrow> Inl e
           | Inr (passed_policy, s6) \<Rightarrow>
               if passed_policy = Policy_FASCIST then executive_action ag2 pres s6
               else Inr s6)"
    apply (rule rel_sum_bind2 [OF hold_legislation_session_ni [OF d1 d2 e]])
    apply (simp add: executive_action_ni [OF d1 d2])
    done
  show ?thesis
    unfolding f Let_def
    using a b session execute_anarchy_ni [OF b]
    by simp
qed

lemma play_round_ni:
  assumes d1: "\<And>p m view g. fst (ag1 p m view g) = d p m view"
      and d2: "\<And>p m view g. fst (ag2 p m view g) = d p m view"
      and e: "engine_eq s t"
  shows "rel_sum (=) engine_eq (play_round shuffle ag1 s) (play_round shuffle ag2 t)"
  unfolding play_round_def
  apply (rule rel_sum_bind [OF update_round_history_ni [OF update_policy_deck_ni [OF e]]])
  apply (rule rel_sum_bind3 [OF determine_next_president_ni])
   apply assumption
  apply (rule rel_sum_bind [OF solicit_intent_to_vote_ni [OF d1 d2]])
   apply assumption
  apply (rule rel_sum_bind3 [OF select_chancellor_ni [OF d1 d2]])
   apply assumption
  apply (rule rel_sum_bind2 [OF hold_election_ni [OF d1 d2]])
   apply assumption
  apply (rule round_end_ni [OF d1 d2])
  apply assumption
  done


lemma after_rounds_ni:
  assumes d1: "\<And>p m view g. fst (ag1 p m view g) = d p m view"
      and d2: "\<And>p m view g. fst (ag2 p m view g) = d p m view"
      and e: "engine_eq s t"
  shows "rel_sum (=) engine_eq (after_rounds n shuffle ag1 s) (after_rounds n shuffle ag2 t)"
  using e
proof (induction n arbitrary: s t)
  case 0
  then show ?case by simp
next
  case (Suc n)
  from Suc.prems obtain h where t: "t = s\<lparr> random_state := h \<rparr>" by (rule engine_eqE)
  have w: "determine_if_winner t = determine_if_winner s"
    by (simp add: t determine_if_winner_def)
  show ?case
  proof (cases "fst (determine_if_winner s) = None")
    case True
    have "rel_sum (=) engine_eq
            (case play_round shuffle ag1 s of Inl e \<Rightarrow> Inl e
             | Inr s' \<Rightarrow> after_rounds n shuffle ag1 s')
            (case play_round shuffle ag2 t of Inl e \<Rightarrow> Inl e
             | Inr s' \<Rightarrow> after_rounds n shuffle ag2 s')"
      by (rule rel_sum_bind [OF play_round_ni [OF d1 d2 Suc.prems]]) (rule Suc.IH)
    with True show ?thesis by (simp add: w)
  next
    case False
    with Suc.prems show ?thesis by (auto simp: w)
  qed
qed

text \<open>
  C8. Two runs from games with the same attributes (in particular the same saved
  generator state, which \<open>Game.__init__\<close> takes from the module-level generator),
  with agents that make the same decisions and do to the module-level generator what
  they like. After any number of rounds both runs have raised the same exception, or the
  game of the second run is the game of the first except for the state of the
  module-level generator; the decks are equal, and the reshuffle that the next round
  starts with yields the same deck and saves the same generator state in both runs. So
  every reshuffle of the two runs yields the same deck. This holds for every shuffle
  function: \<open>update_policy_deck\<close> runs it from the saved state, never from the state
  the agents left.
\<close>

theorem deck_order_independent_of_agent_randomness:
  assumes same: "\<And>p m view g h. fst (ag1 p m view g) = fst (ag2 p m view h)"
      and start: "engine_eq s t"
  shows "case after_rounds n shuffle ag1 s of
           Inl e \<Rightarrow> after_rounds n shuffle ag2 t = Inl e
         | Inr s' \<Rightarrow>
             (\<exists>t'. after_rounds n shuffle ag2 t = Inr t'
                \<and> t' = s'\<lparr> random_state := random_state t' \<rparr>
                \<and> policy_deck (update_policy_deck shuffle t')
                    = policy_deck (update_policy_deck shuffle s')
                \<and> random_number_generator (update_policy_deck shuffle t')
                    = random_number_generator (update_policy_deck shuffle s'))"
proof -
  define d where "d p m view = fst (ag1 p m view (random_state s))" for p m view
  have d1: "\<And>p m view g. fst (ag1 p m view g) = d p m view"
    unfolding d_def using same by metis
  have d2: "\<And>p m view g. fst (ag2 p m view g) = d p m view"
    unfolding d_def using same by metis
  have r: "rel_sum (=) engine_eq (after_rounds n shuffle ag1 s) (after_rounds n shuffle ag2 t)"
    using d1 d2 start by (rule after_rounds_ni)
  show ?thesis
  proof (cases "after_rounds n shuffle ag1 s")
    case (Inl e)
    with r show ?thesis by (cases "after_rounds n shuffle ag2 t") simp_all
  next
    case (Inr s')
    with r obtain t' where t': "after_rounds n shuffle ag2 t = Inr t'" and e': "engine_eq s' t'"
      by (cases "after_rounds n shuffle ag2 t") simp_all
    from update_policy_deck_ni [OF e', of shuffle]
    obtain h where "update_policy_deck shuffle t' = (update_policy_deck shuffle s')\<lparr> random_state := h \<rparr>"
      by (rule engine_eqE)
    then have "policy_deck (update_policy_deck shuffle t')
                 = policy_deck (update_policy_deck shuffle s')"
      "random_number_generator (update_policy_deck shuffle t')
                 = random_number_generator (update_policy_deck shuffle s')"
      by simp_all
    with Inr t' e' show ?thesis by (simp add: engine_eq_def)
  qed
qed

text \<open>
  Six rounds of the five-player table, started with an empty deck, with a shuffle that
  depends on the generator's state. The deck is rebuilt in the first and in the sixth
  round. One table draws one random number per call, the other three: the module-level
  generator ends in different states, the decks are equal and the saved state is that
  after two shuffles in both.
\<close>

theorem deck_order_independent_of_agent_randomness_witness:
  "\<not> isl (after_rounds 6 rotating_shuffle (agents_of base_reply) (example_game [] 0 0))
   \<and> \<not> isl (after_rounds 6 rotating_shuffle (greedy_agents_of base_reply) (example_game [] 0 0))
   \<and> policy_deck (projr (after_rounds 6 rotating_shuffle (greedy_agents_of base_reply)
         (example_game [] 0 0)))
       = policy_deck (projr (after_rounds 6 rotating_shuffle (agents_of base_reply)
           (example_game [] 0 0)))
   \<and> random_number_generator (projr (after_rounds 6 rotating_shuffle (greedy_agents_of base_reply)
         (example_game [] 0 0))) = 2
   \<and> random_state (projr (after_rounds 6 rotating_shuffle (greedy_agents_of base_reply)
         (example_game [] 0 0)))
       \<noteq> random_state (projr (after_rounds 6 rotating_shuffle (agents_of base_reply)
           (example_game [] 0 0)))"
proof -
  let ?a = "after_rounds 6 rotating_shuffle (agents_of base_reply) (example_game [] 0 0)"
  let ?b = "after_rounds 6 rotating_shuffle (greedy_agents_of base_reply) (example_game [] 0 0)"
  have same: "\<And>p m view g h.
      fst (agents_of base_reply p m view g) = fst (greedy_agents_of base_reply p m view h)"
    by (simp add: agents_of_def greedy_agents_of_def)
  have start: "engine_eq (example_game [] 0 0) (example_game [] 0 0)"
    by (simp add: engine_eq_def)
  have ra: "\<not> isl ?a"
    by code_simp
  then obtain sa where runa: "?a = Inr sa"
    by (cases ?a) simp_all
  have g: "random_number_generator (projr ?a) = 2"
    by code_simp
  have differ: "random_state (projr ?b) \<noteq> random_state (projr ?a)"
    by code_simp
  from deck_order_independent_of_agent_randomness
         [of "agents_of base_reply" "greedy_agents_of base_reply"
             "example_game [] 0 0" "example_game [] 0 0" 6 rotating_shuffle, OF same start]
  have "\<exists>t'. ?b = Inr t' \<and> t' = sa\<lparr> random_state := random_state t' \<rparr>"
    unfolding runa by auto
  then obtain t' where b: "?b = Inr t'" and t': "t' = sa\<lparr> random_state := random_state t' \<rparr>"
    by (elim exE conjE)
  have "policy_deck t' = policy_deck sa"
    by (subst t') simp
  moreover have "random_number_generator t' = random_number_generator sa"
    by (subst t') simp
  ultimately show ?thesis
    using b ra g differ
    by (simp add: runa)
qed

subsection \<open>Where the engine departs from the rules it is meant to enforce\<close>

text \<open>
  C1 (the code does otherwise). The claim: once the president executes Hitler, the game
  ends with a liberal win, reason "Shot Hitler". The engine: \<open>execute_player\<close> appends
  the player to \<open>executed_players\<close> and never sets \<open>shot_hitler\<close>, the only thing
  \<open>determine_if_winner\<close> looks at. Here the five-player table has 3 fascist policies
  passed and a deck of fascist cards. In the first round president 0 executes player 4,
  who is Hitler: there is no winner after that round, the game goes on, and it ends in
  the third round with a fascist win by six policies.
\<close>

theorem shot_hitler_never_set:
  "(case play_round example_shuffle shooting_agents
           (example_game (replicate 9 Policy_FASCIST) 0 3) of
      Inl e \<Rightarrow> False
    | Inr s \<Rightarrow>
        executed_players s = [hitler s] \<and> executed_player (last (round_history s)) = Some (PyInt 4)
        \<and> \<not> shot_hitler s \<and> determine_if_winner s = (None, None))
   \<and> play_game 3 example_shuffle shooting_agents
        (example_game (replicate 9 Policy_FASCIST) 0 3)
      = Some (Inr (Some (Some Allegiance_FASCIST, Some (Reason ''Passed 6 Fascist Policies''))))"
  by code_simp

text \<open>
  C2 (the code does otherwise). The claim: a vetoed session applies no policy and
  dispatches no executive action. The engine: \<open>hold_legislation_session\<close> returns the
  selected policy also when it was vetoed, and \<open>play_round\<close> dispatches the executive
  action on that return value. Here 5 fascist policies are passed, the session draws
  three fascist cards, chancellor and president both veto: no policy is enacted, both
  tallies and the special-election override are unchanged, the claims are recorded, and
  the president still executes player 2.
\<close>

theorem veto_still_dispatches_executive_action:
  "(case play_round example_shuffle
           (agents_of (base_reply(Veto_legislation := Return (PyBool True))))
           (example_game (replicate 6 Policy_FASCIST) 0 5) of
      Inl e \<Rightarrow> False
    | Inr s \<Rightarrow>
        chancellor_veto (last (round_history s)) = Some True
        \<and> president_veto (last (round_history s)) = Some True
        \<and> selected_policy (last (round_history s)) = None
        \<and> liberal_policies_passed s = 0 \<and> fascist_policies_passed s = 5
        \<and> special_election_next_president s = None
        \<and> president_claimed_discarded_policy (last (round_history s)) = Some Policy_LIBERAL
        \<and> chancellor_claimed_discarded_policy (last (round_history s)) = Some Policy_LIBERAL
        \<and> executed_player (last (round_history s)) = Some (PyInt 2)
        \<and> executed_players s = [2])"
  by code_simp

text \<open>
  C3 (the code does otherwise). The claim: the streak counter is 0 after a forced draw
  and after a successful election, so every run of three failed elections forces a draw.
  The engine: \<open>anarchy_counter\<close> is only ever incremented, and the draw happens when it
  equals 3. With a table that votes every government down, the third round draws the top
  card (fascist) and leaves the counter at 3; after six rounds the counter is 6 and no
  second card was drawn. With a table that votes yes in the second round only, the
  counter is 1 after that successful election, and the fourth round forces a draw after
  two failures in a row.
\<close>

theorem anarchy_counter_never_reset:
  "(case after_rounds 3 example_shuffle
           (agents_of (base_reply(Vote_on_government := Return (PyBool False))))
           (example_game [Policy_FASCIST, Policy_LIBERAL, Policy_LIBERAL, Policy_LIBERAL] 0 0) of
      Inl e \<Rightarrow> False
    | Inr s \<Rightarrow>
        anarchy_result (last (round_history s)) = Some Policy_FASCIST
        \<and> fascist_policies_passed s = 1 \<and> anarchy_counter s = 3
        \<and> policy_deck s = [Policy_LIBERAL, Policy_LIBERAL, Policy_LIBERAL])
   \<and> (case after_rounds 6 example_shuffle
           (agents_of (base_reply(Vote_on_government := Return (PyBool False))))
           (example_game [Policy_FASCIST, Policy_LIBERAL, Policy_LIBERAL, Policy_LIBERAL] 0 0) of
      Inl e \<Rightarrow> False
    | Inr s \<Rightarrow>
        map successful_election (round_history s) = replicate 6 (Some False)
        \<and> map anarchy_result (round_history s)
            = [None, None, Some Policy_FASCIST, None, None, None]
        \<and> fascist_policies_passed s = 1 \<and> liberal_policies_passed s = 0
        \<and> anarchy_counter s = 6
        \<and> policy_deck s = [Policy_LIBERAL, Policy_LIBERAL, Policy_LIBERAL])
   \<and> (case after_rounds 2 example_shuffle second_round_agents
           (example_game (replicate 6 Policy_LIBERAL) 0 0) of
      Inl e \<Rightarrow> False
    | Inr s \<Rightarrow>
        map successful_election (round_history s) = [Some False, Some True]
        \<and> anarchy_counter s = 1)
   \<and> (case after_rounds 4 example_shuffle second_round_agents
           (example_game (replicate 6 Policy_LIBERAL) 0 0) of
      Inl e \<Rightarrow> False
    | Inr s \<Rightarrow>
        map successful_election (round_history s)
          = [Some False, Some True, Some False, Some False]
        \<and> anarchy_result (last (round_history s)) = Some Policy_LIBERAL
        \<and> anarchy_counter s = 3)"
  by code_simp

text \<open>
  C4 (the code does otherwise). The claim: with more than 5 living players, the president
  and the chancellor of the previous successful government are not offered as chancellor
  candidates and cannot be nominated. The engine: \<open>previous_government\<close> is the empty
  set from construction on and nothing assigns to it, and \<open>select_chancellor\<close> checks no
  eligibility. A six-player game (liberals 0 to 3, fascists 4 and 5, Hitler 5): the first
  round elects president 0 with chancellor 2; in the second round, with six living
  players, both are among the candidates the intent is solicited for, and chancellor 2
  is nominated and elected again.
\<close>

theorem previous_government_never_excluded:
  "(case Game_init {|0, 1, 2, 3|} {|4, 5|} 5 (replicate 6 Policy_LIBERAL)
           [0, 1, 2, 3, 4, 5] (0::nat) of
      Inl e \<Rightarrow> False
    | Inr s0 \<Rightarrow>
        (case after_rounds 2 example_shuffle
                (agents_of (base_reply(Select_chancellor := Return (PyInt 2)))) s0 of
           Inl e \<Rightarrow> False
         | Inr s \<Rightarrow>
             map president (round_history s) = [Some 0, Some 1]
             \<and> map chancellor (round_history s) = [Some (PyInt 2), Some (PyInt 2)]
             \<and> map successful_election (round_history s) = [Some True, Some True]
             \<and> length (presidential_order s) = 6
             \<and> map_option (map fst) (declared_election_intent (last (round_history s)))
                 = Some [0, 2, 3, 4, 5]
             \<and> previous_government s = {||}))"
  by code_simp

text \<open>
  C5 (the code does otherwise). The claim: every fault of an agent ends the game with the
  other team winning. The engine: \<open>play_game\<close> catches PlayerException only, and three
  decision points can fail outside any \<open>try\<close> that raises it. When
  \<open>select_chancellor\<close> returns 7 at a table of five, the subscript
  \<open>self.players[chancellor_id]\<close> raises IndexError; when
  \<open>claimed_player_investigation_result\<close> raises, its exception is not wrapped. Both
  leave \<open>play_game\<close> as exceptions: it returns no winner. (An invalid policy from the
  president, which is checked inside a \<open>try\<close>, does end the game with the fascists
  winning, president 0 being liberal.)
\<close>

theorem agent_fault_escapes_play_game:
  "play_game 3 example_shuffle
      (agents_of (base_reply(Select_chancellor := Return (PyInt 7))))
      (example_game (replicate 6 Policy_FASCIST) 0 0)
     = Some (Inl IndexError)
   \<and> play_game 3 example_shuffle
      (agents_of (base_reply(Claimed_player_investigation_result := Raise AgentError)))
      (example_game (replicate 6 Policy_FASCIST) 0 0)
     = Some (Inl AgentError)
   \<and> play_game 3 example_shuffle
      (agents_of (base_reply(Select_policy_to_discard_as_president := Return PyNone)))
      (example_game [Policy_FASCIST, Policy_LIBERAL, Policy_LIBERAL] 0 0)
     = Some (Inr (Some (Some Allegiance_FASCIST,
                        Some (Formatted_exception (PlayerException 0)))))"
  by code_simp

end
